theory Spec2Isabelle
  imports Complex_Main "HOL-Library.Word"
begin

section \<open>Values of the language\<close>

text \<open>
  A JavaScript string is a sequence of UTF-16 code units. String literals of the source
  are ASCII and are written through \<open>ascii\<close>.

  A JavaScript \<open>number\<close> is modelled as a real: coordinates, sizes and the zoom factor
  are computed in exact arithmetic, so the rounding of IEEE-754 doubles (and \<open>NaN\<close>,
  \<open>Infinity\<close>) is outside the model. Page numbers and list indices only ever hold
  integers in the source (\<open>pageNumber\<close> starts at 1 and moves in steps of 1; indices
  come from \<open>Array.prototype.map\<close>), so they are \<open>int\<close> and \<open>nat\<close>.
\<close>

type_synonym js_string = "16 word list"

definition ascii :: "string \<Rightarrow> js_string" where
  "ascii s = map (\<lambda>c. of_nat (of_char c)) s"

text \<open>
  \<open>String.prototype.trim\<close> removes ECMAScript white space and line terminators from
  both ends: TAB, LF, VT, FF, CR, SP, NBSP, the Unicode space separators (category Zs),
  LS, PS and the byte order mark.
\<close>

definition isWhiteSpace :: "16 word \<Rightarrow> bool" where
  "isWhiteSpace c =
     (c = 0x0009 \<or> c = 0x000A \<or> c = 0x000B \<or> c = 0x000C \<or> c = 0x000D \<or> c = 0x0020 \<or>
      c = 0x00A0 \<or> c = 0x1680 \<or> (0x2000 \<le> c \<and> c \<le> 0x200A) \<or> c = 0x2028 \<or>
      c = 0x2029 \<or> c = 0x202F \<or> c = 0x205F \<or> c = 0x3000 \<or> c = 0xFEFF)"

definition trimStart :: "js_string \<Rightarrow> js_string" where
  "trimStart s = dropWhile isWhiteSpace s"

definition trimEnd :: "js_string \<Rightarrow> js_string" where
  "trimEnd s = rev (dropWhile isWhiteSpace (rev s))"

definition trim :: "js_string \<Rightarrow> js_string" where
  "trim s = trimEnd (trimStart s)"

text \<open>A string in a condition is truthy when it is not empty.\<close>

definition truthy :: "js_string \<Rightarrow> bool" where
  "truthy s = (s \<noteq> [])"

text \<open>
  \<open>xs.map((a, i) => f(a, i))\<close>: the callback receives the element and its index in
  \<open>xs\<close>.
\<close>

definition map_with_index :: "('a \<Rightarrow> nat \<Rightarrow> 'b) \<Rightarrow> 'a list \<Rightarrow> 'b list" where
  "map_with_index f xs = map (\<lambda>(i, a). f a i) (enumerate 0 xs)"

section \<open>The editor's state (PDFEditor.tsx)\<close>

datatype tool = ToolText | ToolSignature | ToolNone

datatype annotation_kind = KindText | KindSignature

record text_annotation =
  ta_x :: real
  ta_y :: real
  ta_text :: js_string
  ta_pageNumber :: int
  ta_fontSize :: "real option"
  ta_isResizing :: "bool option"

record signature_annotation =
  sa_x :: real
  sa_y :: real
  sa_dataUrl :: js_string
  sa_width :: real
  sa_height :: real
  sa_pageNumber :: int
  sa_scale :: "real option"

record position =
  pos_x :: real
  pos_y :: real

text \<open>
  A call of \<open>toast\<close> is recorded in the state: \<open>toasts\<close> lists the notifications
  issued so far, in order.
\<close>

record toast =
  toast_title :: js_string
  toast_description :: js_string
  toast_variant :: "js_string option"

text \<open>
  The \<open>mousemove\<close> and \<open>mouseup\<close> listeners on the document are closures of the render
  in which their effect last ran: they read \<open>draggedAnnotation\<close>, \<open>draggedType\<close> and
  \<open>scale\<close> as of that render. \<open>listeners\<close> holds these values while listeners are
  registered; it is not a \<open>useState\<close> cell.
\<close>

record drag_closure =
  cl_draggedAnnotation :: "nat option"
  cl_draggedType :: annotation_kind
  cl_scale :: real

record editor_state =
  numPages :: "int option"
  pageNumber :: int
  scale :: real
  pdfBytes :: "8 word list option"
  activeTool :: tool
  showSignatureCanvas :: bool
  textAnnotations :: "text_annotation list"
  draggedAnnotation :: "nat option"
  draggedType :: annotation_kind
  signatureAnnotations :: "signature_annotation list"
  newTextAnnotation :: js_string
  editingText :: bool
  editingPosition :: "position option"
  toasts :: "toast list"
  listeners :: "drag_closure option"

text \<open>The state of a freshly mounted editor (the \<open>useState\<close> initial values).\<close>

definition initialState :: editor_state where
  "initialState =
     \<lparr>numPages = None, pageNumber = 1, scale = 1.0, pdfBytes = None, activeTool = ToolNone,
      showSignatureCanvas = False, textAnnotations = [], draggedAnnotation = None,
      draggedType = KindText, signatureAnnotations = [], newTextAnnotation = [],
      editingText = False, editingPosition = None, toasts = [], listeners = None\<rparr>"

text \<open>What a handler reads from the browser: the pointer and a bounding rectangle.\<close>

record mouse_event =
  clientX :: real
  clientY :: real

record dom_rect =
  rect_left :: real
  rect_top :: real
  rect_width :: real
  rect_height :: real

record page_element =
  clientWidth :: real
  clientHeight :: real

section \<open>Pages\<close>

text \<open>
  \<open>onDocumentLoadSuccess\<close> and the \<open>Previous\<close> and \<open>Next\<close> buttons. A disabled
  button does nothing; \<open>numPages || prev\<close> is \<open>prev\<close> when the count is absent or 0.
\<close>

definition onDocumentLoadSuccess :: "int \<Rightarrow> editor_state \<Rightarrow> editor_state" where
  "onDocumentLoadSuccess n s = s\<lparr>numPages := Some n\<rparr>"

definition previousPage :: "editor_state \<Rightarrow> editor_state" where
  "previousPage s =
     (if pageNumber s \<le> 1 then s else s\<lparr>pageNumber := max 1 (pageNumber s - 1)\<rparr>)"

definition nextPage :: "editor_state \<Rightarrow> editor_state" where
  "nextPage s =
     (case numPages s of
        None \<Rightarrow> s
      | Some n \<Rightarrow>
          if n \<le> pageNumber s then s
          else s\<lparr>pageNumber := min (if n = 0 then pageNumber s else n) (pageNumber s + 1)\<rparr>)"

section \<open>Rendering\<close>

text \<open>
  The annotations of the page shown, in the order they are rendered
  (\<open>.filter(annotation => annotation.pageNumber === pageNumber).map((annotation, index) => ...)\<close>).
  The position of an annotation in this list is the \<open>index\<close> that its handlers receive.
\<close>

definition renderedTextAnnotations :: "editor_state \<Rightarrow> text_annotation list" where
  "renderedTextAnnotations s =
     filter (\<lambda>annotation. ta_pageNumber annotation = pageNumber s) (textAnnotations s)"

definition renderedSignatureAnnotations :: "editor_state \<Rightarrow> signature_annotation list" where
  "renderedSignatureAnnotations s =
     filter (\<lambda>annotation. sa_pageNumber annotation = pageNumber s) (signatureAnnotations s)"



definition signatureAnnotationLeft :: "signature_annotation \<Rightarrow> editor_state \<Rightarrow> real" where
  "signatureAnnotationLeft annotation s = sa_x annotation * scale s"

definition signatureAnnotationTop :: "signature_annotation \<Rightarrow> editor_state \<Rightarrow> real" where
  "signatureAnnotationTop annotation s = sa_y annotation * scale s"

section \<open>The two conversions\<close>



section \<open>Placing annotations\<close>

text \<open>
  \<open>handlePageClick\<close>: \<open>rect\<close> is the bounding rectangle of the clicked page
  surface. The zoom factor is kept within \<open>[0.5, 2.0]\<close> by the zoom buttons, so the
  divisions are by a positive number.
\<close>

definition handlePageClick :: "mouse_event \<Rightarrow> dom_rect \<Rightarrow> editor_state \<Rightarrow> editor_state" where
  "handlePageClick e rect s =
     (if activeTool s = ToolNone then s
      else
        let x = (clientX e - rect_left rect) / scale s;
            y = (clientY e - rect_top rect) / scale s
        in if activeTool s = ToolText then
             s\<lparr>editingPosition := Some \<lparr>pos_x = x, pos_y = y\<rparr>, editingText := True\<rparr>
           else
             s\<lparr>editingPosition :=
                  Some \<lparr>pos_x = rect_width rect / 2 / scale s,
                        pos_y = rect_height rect / 2 / scale s\<rparr>,
               showSignatureCanvas := True\<rparr>)"

definition handleTextSubmit :: "editor_state \<Rightarrow> editor_state" where
  "handleTextSubmit s =
     (case editingPosition s of
        None \<Rightarrow> s
      | Some p \<Rightarrow>
          if truthy (trim (newTextAnnotation s)) then
            s\<lparr>textAnnotations :=
                 textAnnotations s @
                 [\<lparr>ta_x = pos_x p, ta_y = pos_y p, ta_text = newTextAnnotation s,
                   ta_pageNumber = pageNumber s, ta_fontSize = Some 11,
                   ta_isResizing = None\<rparr>],
              newTextAnnotation := [],
              editingText := False,
              editingPosition := None,
              activeTool := ToolNone\<rparr>
          else s)"

text \<open>
  \<open>handleSignatureAdd\<close>: \<open>pageElement\<close> is the result of
  \<open>document.querySelector('.react-pdf__Page')\<close>, \<open>None\<close> when there is no such
  element.
\<close>

definition handleSignatureAdd ::
  "js_string \<Rightarrow> page_element option \<Rightarrow> editor_state \<Rightarrow> editor_state" where
  "handleSignatureAdd signatureDataUrl pageElement s =
     (let defaultPosition =
            (case pageElement of
               Some el \<Rightarrow> \<lparr>pos_x = clientWidth el / 2 / scale s,
                           pos_y = clientHeight el / 2 / scale s\<rparr>
             | None \<Rightarrow> \<lparr>pos_x = 300, pos_y = 400\<rparr>);
          position = (case editingPosition s of Some p \<Rightarrow> p | None \<Rightarrow> defaultPosition)
      in s\<lparr>signatureAnnotations :=
             signatureAnnotations s @
             [\<lparr>sa_x = pos_x position, sa_y = pos_y position, sa_dataUrl = signatureDataUrl,
               sa_width = 200, sa_height = 100, sa_pageNumber = pageNumber s,
               sa_scale = None\<rparr>],
           showSignatureCanvas := False,
           editingPosition := None,
           activeTool := ToolNone\<rparr>)"

definition handleSignatureCancel :: "editor_state \<Rightarrow> editor_state" where
  "handleSignatureCancel s = s\<lparr>showSignatureCanvas := False, activeTool := ToolNone\<rparr>"

text \<open>
  The tool buttons (\<open>onClick={() => setActiveTool(...)}\<close>) and the text area of the
  prompt (\<open>onChange={(e) => setNewTextAnnotation(e.target.value)}\<close>).
\<close>

definition setActiveTool :: "tool \<Rightarrow> editor_state \<Rightarrow> editor_state" where
  "setActiveTool t s = s\<lparr>activeTool := t\<rparr>"

definition setNewTextAnnotation :: "js_string \<Rightarrow> editor_state \<Rightarrow> editor_state" where
  "setNewTextAnnotation v s = s\<lparr>newTextAnnotation := v\<rparr>"

section \<open>Dragging\<close>

definition handleAnnotationMouseDown ::
  "nat \<Rightarrow> annotation_kind \<Rightarrow> editor_state \<Rightarrow> editor_state" where
  "handleAnnotationMouseDown index type s =
     s\<lparr>draggedAnnotation := Some index, draggedType := type\<rparr>"

text \<open>
  \<open>handleMouseMove\<close>: \<open>c\<close> holds the values the listener closed over, \<open>rect\<close> is
  \<open>documentRef.current?.getBoundingClientRect()\<close>, \<open>None\<close> when the reference is not
  attached. The collections are updated from their current value (\<open>prev => ...\<close>).
\<close>

definition handleMouseMove ::
  "drag_closure \<Rightarrow> mouse_event \<Rightarrow> dom_rect option \<Rightarrow> editor_state \<Rightarrow> editor_state" where
  "handleMouseMove c e rect s =
     (case cl_draggedAnnotation c of
        None \<Rightarrow> s
      | Some dragged \<Rightarrow>
          (case rect of
             None \<Rightarrow> s
           | Some r \<Rightarrow>
               if cl_draggedType c = KindText then
                 s\<lparr>textAnnotations :=
                      map_with_index
                        (\<lambda>annotation index.
                           if index = dragged then
                             annotation\<lparr>ta_x := (clientX e - rect_left r) / cl_scale c,
                                        ta_y := (clientY e - rect_top r) / cl_scale c\<rparr>
                           else annotation)
                        (textAnnotations s)\<rparr>
               else
                 s\<lparr>signatureAnnotations :=
                      map_with_index
                        (\<lambda>annotation index.
                           if index = dragged then
                             annotation\<lparr>sa_x := (clientX e - rect_left r) / cl_scale c,
                                        sa_y := (clientY e - rect_top r) / cl_scale c\<rparr>
                           else annotation)
                        (signatureAnnotations s)\<rparr>))"

definition handleMouseUp :: "editor_state \<Rightarrow> editor_state" where
  "handleMouseUp s = s\<lparr>draggedAnnotation := None\<rparr>"

text \<open>
  The effect with dependencies \<open>[draggedAnnotation, scale]\<close>, run after the render that
  takes the state from \<open>prev\<close> to \<open>s\<close>: when a dependency has changed, the old listeners
  are removed and, while an annotation is dragged, new ones are registered.
\<close>

definition dragEffect :: "editor_state \<Rightarrow> editor_state \<Rightarrow> editor_state" where
  "dragEffect prev s =
     (if draggedAnnotation s = draggedAnnotation prev \<and> scale s = scale prev then s
      else if draggedAnnotation s = None then s\<lparr>listeners := None\<rparr>
      else
        s\<lparr>listeners :=
             Some \<lparr>cl_draggedAnnotation = draggedAnnotation s,
                   cl_draggedType = draggedType s, cl_scale = scale s\<rparr>\<rparr>)"

text \<open>
  The events of a drag as the editor receives them: a pointer-down on a rendered
  annotation, and pointer-moves and a pointer-up on the document, which reach a handler
  only while listeners are registered.
\<close>

definition annotationMouseDown ::
  "nat \<Rightarrow> annotation_kind \<Rightarrow> editor_state \<Rightarrow> editor_state" where
  "annotationMouseDown index type s = dragEffect s (handleAnnotationMouseDown index type s)"

definition documentMouseMove ::
  "mouse_event \<Rightarrow> dom_rect option \<Rightarrow> editor_state \<Rightarrow> editor_state" where
  "documentMouseMove e rect s =
     (case listeners s of None \<Rightarrow> s | Some c \<Rightarrow> handleMouseMove c e rect s)"

definition documentMouseUp :: "editor_state \<Rightarrow> editor_state" where
  "documentMouseUp s =
     (case listeners s of None \<Rightarrow> s | Some c \<Rightarrow> dragEffect s (handleMouseUp s))"

text \<open>
  A pointer-down on the annotation rendered at position \<open>index\<close> of its list on the page
  shown (\<open>onMouseDown={(e) => handleAnnotationMouseDown(e, index)}\<close>, and with
  \<open>'signature'\<close> for a signature); beyond the list there is no annotation to press.
\<close>

definition textAnnotationMouseDown :: "nat \<Rightarrow> editor_state \<Rightarrow> editor_state" where
  "textAnnotationMouseDown index s =
     (if index < length (renderedTextAnnotations s) then annotationMouseDown index KindText s
      else s)"

definition signatureAnnotationMouseDown :: "nat \<Rightarrow> editor_state \<Rightarrow> editor_state" where
  "signatureAnnotationMouseDown index s =
     (if index < length (renderedSignatureAnnotations s) then
        annotationMouseDown index KindSignature s
      else s)"

text \<open>The pointer-moves of one drag session, in order, each with the rectangle it reads.\<close>

fun documentMouseMoves ::
  "(mouse_event \<times> dom_rect option) list \<Rightarrow> editor_state \<Rightarrow> editor_state" where
  "documentMouseMoves [] s = s"
| "documentMouseMoves ((e, rect) # moves) s = documentMouseMoves moves (documentMouseMove e rect s)"

text \<open>
  A drag session is open on the annotation with index \<open>i\<close> of the given kind, and the
  registered listeners are those of the current render.
\<close>

definition dragSession :: "annotation_kind \<Rightarrow> nat \<Rightarrow> editor_state \<Rightarrow> bool" where
  "dragSession kind i s =
     (draggedAnnotation s = Some i \<and> draggedType s = kind \<and>
      listeners s =
        Some \<lparr>cl_draggedAnnotation = Some i, cl_draggedType = kind, cl_scale = scale s\<rparr>)"

section \<open>Zoom\<close>

text \<open>
  The zoom buttons (\<open>setScale(prev => Math.max(0.5, prev - 0.1))\<close> and
  \<open>setScale(prev => Math.min(2.0, prev + 0.1))\<close>), each disabled at its end of the
  range. The zoom factor is a dependency of the drag effect.
\<close>

definition zoomOut :: "editor_state \<Rightarrow> editor_state" where
  "zoomOut s =
     (if scale s \<le> 0.5 then s else dragEffect s (s\<lparr>scale := max 0.5 (scale s - 0.1)\<rparr>))"


section \<open>Resizing\<close>

text \<open>\<open>a.fontSize || 11\<close>: an absent size and the size 0 both count as 11.\<close>

definition fontSizeOrDefault :: "real option \<Rightarrow> real" where
  "fontSizeOrDefault fs = (case fs of None \<Rightarrow> 11 | Some v \<Rightarrow> if v = 0 then 11 else v)"

text \<open>The \<open>+\<close> and \<open>-\<close> buttons of a text annotation rendered with key \<open>index\<close>.\<close>

definition incrementFontSize :: "nat \<Rightarrow> editor_state \<Rightarrow> editor_state" where
  "incrementFontSize index s =
     s\<lparr>textAnnotations :=
          map_with_index
            (\<lambda>a i. if i = index then a\<lparr>ta_fontSize := Some (fontSizeOrDefault (ta_fontSize a) + 1)\<rparr>
                   else a)
            (textAnnotations s)\<rparr>"

definition decrementFontSize :: "nat \<Rightarrow> editor_state \<Rightarrow> editor_state" where
  "decrementFontSize index s =
     s\<lparr>textAnnotations :=
          map_with_index
            (\<lambda>a i. if i = index then
                     a\<lparr>ta_fontSize := Some (max 8 (fontSizeOrDefault (ta_fontSize a) - 1))\<rparr>
                   else a)
            (textAnnotations s)\<rparr>"

text \<open>The \<open>+\<close> and \<open>-\<close> buttons of a signature annotation rendered with key \<open>index\<close>.\<close>

definition growSignature :: "nat \<Rightarrow> editor_state \<Rightarrow> editor_state" where
  "growSignature index s =
     s\<lparr>signatureAnnotations :=
          map_with_index
            (\<lambda>a i. if i = index then a\<lparr>sa_width := sa_width a * 1.1, sa_height := sa_height a * 1.1\<rparr>
                   else a)
            (signatureAnnotations s)\<rparr>"

definition shrinkSignature :: "nat \<Rightarrow> editor_state \<Rightarrow> editor_state" where
  "shrinkSignature index s =
     s\<lparr>signatureAnnotations :=
          map_with_index
            (\<lambda>a i. if i = index then
                     a\<lparr>sa_width := max 50 (sa_width a * 0.9),
                       sa_height := max 25 (sa_height a * 0.9)\<rparr>
                   else a)
            (signatureAnnotations s)\<rparr>"

text \<open>A sequence of presses of the resize buttons, each on the annotation with the given key.\<close>

datatype resize_op = IncrementFont nat | DecrementFont nat | Grow nat | Shrink nat

fun resize :: "resize_op \<Rightarrow> editor_state \<Rightarrow> editor_state" where
  "resize (IncrementFont i) s = incrementFontSize i s"
| "resize (DecrementFont i) s = decrementFontSize i s"
| "resize (Grow i) s = growSignature i s"
| "resize (Shrink i) s = shrinkSignature i s"

fun resizes :: "resize_op list \<Rightarrow> editor_state \<Rightarrow> editor_state" where
  "resizes [] s = s"
| "resizes (op # ops) s = resizes ops (resize op s)"

section \<open>Export (handleDownload)\<close>

text \<open>
  The document-mutation library (pdf-lib) is not part of the repository. What the
  exporter needs of it is taken as a parameter: the pages \<open>PDFDocument.load\<close> finds in
  a byte buffer (\<open>None\<close> when it throws), whether \<open>drawText\<close> can encode a string in
  the embedded font, and whether \<open>embedPng\<close> accepts a data URL. Its other calls
  (\<open>embedFont\<close> of a standard face, \<open>getSize\<close>, \<open>drawImage\<close>, \<open>save\<close>) are taken
  to succeed. The serialized result is represented by the draw instructions issued on the
  loaded document, in order.
\<close>

record pdf_page =
  pg_width :: real
  pg_height :: real

record pdf_lib =
  lib_load :: "8 word list \<Rightarrow> pdf_page list option"
  lib_canEncode :: "js_string \<Rightarrow> bool"
  lib_embedPng :: "js_string \<Rightarrow> bool"

datatype draw_instr =
    DrawText (di_page: nat) (di_text: js_string) (di_x: real) (di_y: real) (di_size: real)
      (di_color: "real \<times> real \<times> real") (di_font: js_string) (di_opacity: real)
  | DrawImage (di_page: nat) (di_image: js_string) (di_x: real) (di_y: real)
      (di_width: real) (di_height: real)

text \<open>
  \<open>pages[n - 1]\<close> followed by \<open>page.getSize()\<close>: outside the array the element is
  \<open>undefined\<close> and the call throws.
\<close>

definition getPage :: "pdf_page list \<Rightarrow> int \<Rightarrow> pdf_page option" where
  "getPage pages n =
     (if 1 \<le> n \<and> n \<le> int (length pages) then Some (pages ! nat (n - 1)) else None)"

definition drawTextInstr :: "pdf_page \<Rightarrow> text_annotation \<Rightarrow> draw_instr" where
  "drawTextInstr page annotation =
     DrawText (nat (ta_pageNumber annotation - 1)) (ta_text annotation)
       (ta_x annotation) (pg_height page - ta_y annotation) 11 (0, 0, 0)
       (ascii ''Helvetica'') 0.95"

definition drawImageInstr :: "pdf_page \<Rightarrow> signature_annotation \<Rightarrow> draw_instr" where
  "drawImageInstr page annotation =
     DrawImage (nat (sa_pageNumber annotation - 1)) (sa_dataUrl annotation)
       (sa_x annotation) (pg_height page - sa_y annotation - sa_height annotation)
       (sa_width annotation) (sa_height annotation)"

text \<open>
  The two \<open>for ... of\<close> loops. An exception anywhere leaves the \<open>try\<close> block, so a
  failing annotation makes the whole loop fail (\<open>None\<close>).
\<close>

fun drawTextAnnotations ::
  "pdf_lib \<Rightarrow> pdf_page list \<Rightarrow> text_annotation list \<Rightarrow> draw_instr list option" where
  "drawTextAnnotations lib pages [] = Some []"
| "drawTextAnnotations lib pages (annotation # rest) =
     (case getPage pages (ta_pageNumber annotation) of
        None \<Rightarrow> None
      | Some page \<Rightarrow>
          if lib_canEncode lib (ta_text annotation) then
            (case drawTextAnnotations lib pages rest of
               None \<Rightarrow> None
             | Some ds \<Rightarrow> Some (drawTextInstr page annotation # ds))
          else None)"

fun drawSignatureAnnotations ::
  "pdf_lib \<Rightarrow> pdf_page list \<Rightarrow> signature_annotation list \<Rightarrow> draw_instr list option" where
  "drawSignatureAnnotations lib pages [] = Some []"
| "drawSignatureAnnotations lib pages (annotation # rest) =
     (case getPage pages (sa_pageNumber annotation) of
        None \<Rightarrow> None
      | Some page \<Rightarrow>
          if lib_embedPng lib (sa_dataUrl annotation) then
            (case drawSignatureAnnotations lib pages rest of
               None \<Rightarrow> None
             | Some ds \<Rightarrow> Some (drawImageInstr page annotation # ds))
          else None)"

text \<open>The body of the \<open>try\<close> block up to \<open>pdfDoc.save()\<close>.\<close>

definition exportDocument :: "pdf_lib \<Rightarrow> 8 word list \<Rightarrow> editor_state \<Rightarrow> draw_instr list option" where
  "exportDocument lib bytes s =
     (case lib_load lib bytes of
        None \<Rightarrow> None
      | Some pages \<Rightarrow>
          (case drawTextAnnotations lib pages (textAnnotations s) of
             None \<Rightarrow> None
           | Some texts \<Rightarrow>
               (case drawSignatureAnnotations lib pages (signatureAnnotations s) of
                  None \<Rightarrow> None
                | Some images \<Rightarrow> Some (texts @ images))))"

record file_obj =
  file_name :: js_string
  file_type :: js_string
  file_content :: "8 word list"

datatype download = Download (dl_name: js_string) (dl_content: "draw_instr list")

definition handleDownload ::
  "pdf_lib \<Rightarrow> file_obj \<Rightarrow> editor_state \<Rightarrow> download option \<times> editor_state" where
  "handleDownload lib file s =
     (case pdfBytes s of
        None \<Rightarrow> (None, s)
      | Some bytes \<Rightarrow>
          (case exportDocument lib bytes s of
             Some draws \<Rightarrow>
               (Some (Download (ascii ''edited_'' @ file_name file) draws),
                s\<lparr>toasts := toasts s @
                   [\<lparr>toast_title = ascii ''Success'',
                     toast_description = ascii ''PDF downloaded with your edits'',
                     toast_variant = None\<rparr>]\<rparr>)
           | None \<Rightarrow>
               (None,
                s\<lparr>toasts := toasts s @
                   [\<lparr>toast_title = ascii ''Error'',
                     toast_description = ascii ''Failed to save PDF file'',
                     toast_variant = Some (ascii ''destructive'')\<rparr>]\<rparr>)))"

text \<open>
  The states on which the export goes through: every annotation names a page of the
  document, every text can be encoded and every signature image can be embedded.
\<close>

definition exportable :: "pdf_lib \<Rightarrow> pdf_page list \<Rightarrow> editor_state \<Rightarrow> bool" where
  "exportable lib pages s =
     (list_all (\<lambda>a. getPage pages (ta_pageNumber a) \<noteq> None \<and> lib_canEncode lib (ta_text a))
        (textAnnotations s) \<and>
      list_all (\<lambda>a. getPage pages (sa_pageNumber a) \<noteq> None \<and> lib_embedPng lib (sa_dataUrl a))
        (signatureAnnotations s))"

section \<open>Upload (PDFUploader.tsx, App.tsx)\<close>

record app_state =
  selectedFile :: "file_obj option"
  isDragging :: bool
  app_toasts :: "toast list"

definition handleFileUpload :: "file_obj \<Rightarrow> app_state \<Rightarrow> app_state" where
  "handleFileUpload file s = s\<lparr>selectedFile := Some file\<rparr>"

definition validateAndUploadFile :: "file_obj \<Rightarrow> app_state \<Rightarrow> app_state" where
  "validateAndUploadFile file s =
     (if file_type file \<noteq> ascii ''application/pdf'' then
        s\<lparr>app_toasts := app_toasts s @
           [\<lparr>toast_title = ascii ''Invalid file type'',
             toast_description = ascii ''Please upload a PDF file'',
             toast_variant = Some (ascii ''destructive'')\<rparr>]\<rparr>
      else
        (handleFileUpload file s)
          \<lparr>app_toasts := app_toasts s @
             [\<lparr>toast_title = ascii ''File uploaded'',
               toast_description = file_name file @ ascii '' has been uploaded successfully'',
               toast_variant = None\<rparr>]\<rparr>)"

text \<open>The two entry points; \<open>files\<close> is the event's file list.\<close>

definition handleDrop :: "file_obj list \<Rightarrow> app_state \<Rightarrow> app_state" where
  "handleDrop files s =
     (let s' = s\<lparr>isDragging := False\<rparr>
      in case files of [] \<Rightarrow> s' | file # _ \<Rightarrow> validateAndUploadFile file s')"

definition handleFileInputChange :: "file_obj list \<Rightarrow> app_state \<Rightarrow> app_state" where
  "handleFileInputChange files s =
     (case files of [] \<Rightarrow> s | file # _ \<Rightarrow> validateAndUploadFile file s)"

text \<open>
  What \<open>App\<close> renders: the uploader while no file is selected, otherwise the editor on
  the selected file. The editor is the only component that reads the file into the
  document source and mounts the page renderer.
\<close>

datatype view = UploaderView | EditorView file_obj

definition render :: "app_state \<Rightarrow> view" where
  "render s = (case selectedFile s of None \<Rightarrow> UploaderView | Some file \<Rightarrow> EditorView file)"

section \<open>A sample session\<close>

text \<open>
  A one-page document of US Letter size is loaded; the page surface is shown at zoom 1.0
  with its top-left corner at \<open>(10, 20)\<close> of the viewport.
\<close>

definition letterPage :: pdf_page where
  "letterPage = \<lparr>pg_width = 612, pg_height = 792\<rparr>"

definition sampleLib :: pdf_lib where
  "sampleLib =
     \<lparr>lib_load = (\<lambda>bytes. Some [letterPage]), lib_canEncode = (\<lambda>t. True),
      lib_embedPng = (\<lambda>url. True)\<rparr>"

definition sampleFile :: file_obj where
  "sampleFile =
     \<lparr>file_name = ascii ''form.pdf'', file_type = ascii ''application/pdf'',
      file_content = [0x25, 0x50, 0x44, 0x46]\<rparr>"

definition loadedState :: editor_state where
  "loadedState = initialState\<lparr>numPages := Some 1, pdfBytes := Some (file_content sampleFile)\<rparr>"

definition pageSurface :: dom_rect where
  "pageSurface = \<lparr>rect_left = 10, rect_top = 20, rect_width = 612, rect_height = 792\<rparr>"

text \<open>
  The document surface is the bordered, padded container around the page surface: it
  starts 17 pixels further up and to the left.
\<close>

definition documentSurface :: dom_rect where
  "documentSurface = \<lparr>rect_left = -7, rect_top = 3, rect_width = 646, rect_height = 826\<rparr>"

text \<open>
  The text tool is chosen, the page is clicked at viewport position \<open>(60, 100)\<close>, and
  \<open>Hi\<close> is submitted: a text annotation at document position \<open>(50, 80)\<close>.
\<close>

definition withText :: editor_state where
  "withText =
     handleTextSubmit
       (setNewTextAnnotation (ascii ''Hi'')
          (handlePageClick \<lparr>clientX = 60, clientY = 100\<rparr> pageSurface
             (setActiveTool ToolText loadedState)))"

text \<open>
  The signature tool is chosen, the page is clicked at viewport position \<open>(110, 220)\<close>
  and a drawn signature is saved.
\<close>

definition samplePng :: js_string where
  "samplePng = ascii ''data:image/png;base64,iVBORw0KGgo=''"

definition withSignature :: editor_state where
  "withSignature =
     handleSignatureAdd samplePng (Some \<lparr>clientWidth = 612, clientHeight = 792\<rparr>)
       (handlePageClick \<lparr>clientX = 110, clientY = 220\<rparr> pageSurface
          (setActiveTool ToolSignature withText))"

text \<open>The text prompt, opened by a click at viewport position \<open>(60, 100)\<close>.\<close>

definition promptOpen :: editor_state where
  "promptOpen =
     handlePageClick \<lparr>clientX = 60, clientY = 100\<rparr> pageSurface
       (setActiveTool ToolText loadedState)"

text \<open>The application before any upload, and a file that is not a PDF.\<close>

definition initialApp :: app_state where
  "initialApp = \<lparr>selectedFile = None, isDragging = False, app_toasts = []\<rparr>"

definition notesFile :: file_obj where
  "notesFile =
     \<lparr>file_name = ascii ''notes.txt'', file_type = ascii ''text/plain'',
      file_content = [0x68, 0x69]\<rparr>"

section \<open>A sample session on two pages\<close>

text \<open>
  A document of two pages, the first of size A4 and the second of US Letter size. Each
  page surface is shown at zoom 1.0 with its top-left corner at \<open>(10, 20)\<close> of the
  viewport.
\<close>

definition a4Page :: pdf_page where
  "a4Page = \<lparr>pg_width = 595, pg_height = 842\<rparr>"

definition twoPageLib :: pdf_lib where
  "twoPageLib =
     \<lparr>lib_load = (\<lambda>bytes. Some [a4Page, letterPage]), lib_canEncode = (\<lambda>t. True),
      lib_embedPng = (\<lambda>url. True)\<rparr>"

definition twoPageLoaded :: editor_state where
  "twoPageLoaded =
     onDocumentLoadSuccess 2 (initialState\<lparr>pdfBytes := Some (file_content sampleFile)\<rparr>)"

definition a4Surface :: dom_rect where
  "a4Surface = \<lparr>rect_left = 10, rect_top = 20, rect_width = 595, rect_height = 842\<rparr>"

text \<open>
  On the second page a text is placed by a click at viewport position \<open>(60, 100)\<close>, that
  is at document position \<open>(50, 80)\<close>; then a signature is placed and dragged until the
  pointer is at viewport position \<open>(43, 83)\<close>, that is at \<open>(50, 80)\<close> from the corner of
  the document surface.
\<close>

definition secondPageText :: editor_state where
  "secondPageText =
     handleTextSubmit
       (setNewTextAnnotation (ascii ''Hi'')
          (handlePageClick \<lparr>clientX = 60, clientY = 100\<rparr> pageSurface
             (setActiveTool ToolText (nextPage twoPageLoaded))))"

definition secondPageSigned :: editor_state where
  "secondPageSigned =
     documentMouseUp
       (documentMouseMove \<lparr>clientX = 43, clientY = 83\<rparr> (Some documentSurface)
          (signatureAnnotationMouseDown 0
             (handleSignatureAdd samplePng (Some \<lparr>clientWidth = 612, clientHeight = 792\<rparr>)
                (handlePageClick \<lparr>clientX = 110, clientY = 220\<rparr> pageSurface
                   (setActiveTool ToolSignature secondPageText)))))"

text \<open>
  In another session a signature is placed on the first page, the second page is shown
  and a signature is placed there.
\<close>

definition signedOnBothPages :: editor_state where
  "signedOnBothPages =
     handleSignatureAdd samplePng (Some \<lparr>clientWidth = 612, clientHeight = 792\<rparr>)
       (handlePageClick \<lparr>clientX = 110, clientY = 220\<rparr> pageSurface
          (setActiveTool ToolSignature
             (nextPage
                (handleSignatureAdd samplePng (Some \<lparr>clientWidth = 595, clientHeight = 842\<rparr>)
                   (handlePageClick \<lparr>clientX = 110, clientY = 220\<rparr> a4Surface
                      (setActiveTool ToolSignature twoPageLoaded))))))"



section \<open>Properties\<close>

subsection \<open>Indexed map\<close>

lemma length_map_with_index: "length (map_with_index f xs) = length xs"
  by (simp add: map_with_index_def)

lemma nth_map_with_index: "i < length xs \<Longrightarrow> map_with_index f xs ! i = f (xs ! i) i"
  by (simp add: map_with_index_def nth_enumerate_eq)

lemma map_with_index_at:
  "map_with_index (\<lambda>a i. if i = index then g a else a) xs = xs[index := g (xs ! index)]"
  by (auto simp: list_eq_iff_nth_eq length_map_with_index nth_map_with_index nth_list_update)

subsection \<open>The sample session, evaluated\<close>

lemma trim_Hi: "trim (ascii ''Hi'') = ascii ''Hi''"
  by (simp add: trim_def trimStart_def trimEnd_def ascii_def isWhiteSpace_def)

lemma withText_eq:
  "withText =
     loadedState\<lparr>textAnnotations :=
       [\<lparr>ta_x = 50, ta_y = 80, ta_text = ascii ''Hi'', ta_pageNumber = 1,
         ta_fontSize = Some 11, ta_isResizing = None\<rparr>]\<rparr>"
  by (simp add: withText_def loadedState_def initialState_def pageSurface_def
      setActiveTool_def setNewTextAnnotation_def handlePageClick_def handleTextSubmit_def
      trim_Hi truthy_def Let_def)
     (simp add: ascii_def)

lemma withSignature_eq:
  "withSignature =
     withText\<lparr>signatureAnnotations :=
       [\<lparr>sa_x = 306, sa_y = 396, sa_dataUrl = samplePng, sa_width = 200, sa_height = 100,
         sa_pageNumber = 1, sa_scale = None\<rparr>]\<rparr>"
  by (simp add: withSignature_def withText_eq loadedState_def initialState_def pageSurface_def
      setActiveTool_def handlePageClick_def handleSignatureAdd_def Let_def)

lemma twoPageLoaded_eq:
  "twoPageLoaded = initialState\<lparr>numPages := Some 2, pdfBytes := Some (file_content sampleFile)\<rparr>"
  by (simp add: twoPageLoaded_def onDocumentLoadSuccess_def)

lemma secondPageText_eq:
  "secondPageText =
     twoPageLoaded\<lparr>pageNumber := 2, textAnnotations :=
       [\<lparr>ta_x = 50, ta_y = 80, ta_text = ascii ''Hi'', ta_pageNumber = 2,
         ta_fontSize = Some 11, ta_isResizing = None\<rparr>]\<rparr>"
  by (simp add: secondPageText_def twoPageLoaded_eq initialState_def nextPage_def
      pageSurface_def setActiveTool_def setNewTextAnnotation_def handlePageClick_def
      handleTextSubmit_def trim_Hi truthy_def Let_def)
     (simp add: ascii_def)

lemma secondPageSigned_eq:
  "secondPageSigned =
     secondPageText\<lparr>draggedType := KindSignature,
       signatureAnnotations :=
       [\<lparr>sa_x = 50, sa_y = 80, sa_dataUrl = samplePng, sa_width = 200, sa_height = 100,
         sa_pageNumber = 2, sa_scale = None\<rparr>]\<rparr>"
  by (simp add: secondPageSigned_def secondPageText_eq twoPageLoaded_eq initialState_def
      pageSurface_def documentSurface_def setActiveTool_def handlePageClick_def
      handleSignatureAdd_def signatureAnnotationMouseDown_def renderedSignatureAnnotations_def
      annotationMouseDown_def dragEffect_def handleAnnotationMouseDown_def
      documentMouseMove_def handleMouseMove_def documentMouseUp_def handleMouseUp_def
      map_with_index_def Let_def)

lemma signedOnBothPages_eq:
  "signedOnBothPages =
     twoPageLoaded\<lparr>pageNumber := 2, signatureAnnotations :=
       [\<lparr>sa_x = 595 / 2, sa_y = 421, sa_dataUrl = samplePng, sa_width = 200, sa_height = 100,
         sa_pageNumber = 1, sa_scale = None\<rparr>,
        \<lparr>sa_x = 306, sa_y = 396, sa_dataUrl = samplePng, sa_width = 200, sa_height = 100,
         sa_pageNumber = 2, sa_scale = None\<rparr>]\<rparr>"
  by (simp add: signedOnBothPages_def twoPageLoaded_eq initialState_def nextPage_def
      pageSurface_def a4Surface_def setActiveTool_def handlePageClick_def
      handleSignatureAdd_def Let_def)


subsection \<open>Resizing keeps the floors\<close>

lemma resize_length_texts:
  "length (textAnnotations (resize op s)) = length (textAnnotations s)"
  by (cases op)
     (simp_all add: incrementFontSize_def decrementFontSize_def growSignature_def
        shrinkSignature_def length_map_with_index)

lemma resize_length_signatures:
  "length (signatureAnnotations (resize op s)) = length (signatureAnnotations s)"
  by (cases op)
     (simp_all add: incrementFontSize_def decrementFontSize_def growSignature_def
        shrinkSignature_def length_map_with_index)

lemma resize_font_floor:
  assumes "j < length (textAnnotations s)"
    and "ta_fontSize (textAnnotations s ! j) = Some v" and "8 \<le> v"
  shows "\<exists>w. ta_fontSize (textAnnotations (resize op s) ! j) = Some w \<and> 8 \<le> w"
  using assms
  by (cases op)
     (auto simp: incrementFontSize_def decrementFontSize_def growSignature_def
        shrinkSignature_def nth_map_with_index fontSizeOrDefault_def)

lemma resizes_font_floor:
  assumes "j < length (textAnnotations s)"
    and "ta_fontSize (textAnnotations s ! j) = Some v" and "8 \<le> v"
  shows "j < length (textAnnotations (resizes ops s)) \<and>
         (\<exists>w. ta_fontSize (textAnnotations (resizes ops s) ! j) = Some w \<and> 8 \<le> w)"
  using assms
proof (induction ops arbitrary: s v)
  case Nil
  then show ?case by simp
next
  case (Cons op ops)
  from Cons.prems obtain w where
    w: "ta_fontSize (textAnnotations (resize op s) ! j) = Some w" "8 \<le> w"
    using resize_font_floor by blast
  have "j < length (textAnnotations (resize op s))"
    using Cons.prems(1) by (simp add: resize_length_texts)
  then show ?case
    using Cons.IH w by simp
qed

lemma resize_signature_floor:
  assumes "j < length (signatureAnnotations s)"
    and "50 \<le> sa_width (signatureAnnotations s ! j)"
    and "25 \<le> sa_height (signatureAnnotations s ! j)"
  shows "50 \<le> sa_width (signatureAnnotations (resize op s) ! j) \<and>
         25 \<le> sa_height (signatureAnnotations (resize op s) ! j)"
  using assms
  by (cases op)
     (auto simp: incrementFontSize_def decrementFontSize_def growSignature_def
        shrinkSignature_def nth_map_with_index)

lemma resizes_signature_floor:
  assumes "j < length (signatureAnnotations s)"
    and "50 \<le> sa_width (signatureAnnotations s ! j)"
    and "25 \<le> sa_height (signatureAnnotations s ! j)"
  shows "j < length (signatureAnnotations (resizes ops s)) \<and>
         50 \<le> sa_width (signatureAnnotations (resizes ops s) ! j) \<and>
         25 \<le> sa_height (signatureAnnotations (resizes ops s) ! j)"
  using assms
proof (induction ops arbitrary: s)
  case Nil
  then show ?case by simp
next
  case (Cons op ops)
  have "j < length (signatureAnnotations (resize op s))"
    using Cons.prems(1) by (simp add: resize_length_signatures)
  moreover have "50 \<le> sa_width (signatureAnnotations (resize op s) ! j) \<and>
      25 \<le> sa_height (signatureAnnotations (resize op s) ! j)"
    using Cons.prems by (rule resize_signature_floor)
  ultimately show ?case
    using Cons.IH by simp
qed

text \<open>
  C6. A text annotation that starts at font size 11 has, after any sequence of presses of
  the resize buttons (on any annotations), a font size \<open>v\<close> of at least 8. From there
  the decrement button gives \<open>max 8 (v - 1)\<close>, so it leaves a size of 8 at 8, and the
  increment button gives \<open>v + 1\<close>, whatever \<open>v\<close> is.
\<close>

theorem font_size_floor:
  assumes "j < length (textAnnotations s)"
    and "ta_fontSize (textAnnotations s ! j) = Some 11"
  shows "\<exists>v. ta_fontSize (textAnnotations (resizes ops s) ! j) = Some v \<and> 8 \<le> v \<and>
           ta_fontSize (textAnnotations (decrementFontSize j (resizes ops s)) ! j) =
             Some (max 8 (v - 1)) \<and>
           (v = 8 \<longrightarrow>
              ta_fontSize (textAnnotations (decrementFontSize j (resizes ops s)) ! j) = Some 8) \<and>
           ta_fontSize (textAnnotations (incrementFontSize j (resizes ops s)) ! j) = Some (v + 1)"
proof -
  have "(8::real) \<le> 11" by simp
  with assms have len: "j < length (textAnnotations (resizes ops s))"
    and "\<exists>w. ta_fontSize (textAnnotations (resizes ops s) ! j) = Some w \<and> 8 \<le> w"
    using resizes_font_floor by blast+
  then obtain v where v: "ta_fontSize (textAnnotations (resizes ops s) ! j) = Some v" "8 \<le> v"
    by blast
  have "ta_fontSize (textAnnotations (decrementFontSize j (resizes ops s)) ! j) =
      Some (max 8 (v - 1))"
    using len v by (simp add: decrementFontSize_def nth_map_with_index fontSizeOrDefault_def)
  moreover have "ta_fontSize (textAnnotations (incrementFontSize j (resizes ops s)) ! j) =
      Some (v + 1)"
    using len v by (simp add: incrementFontSize_def nth_map_with_index fontSizeOrDefault_def)
  ultimately show ?thesis
    using v by auto
qed

theorem font_size_floor_witness:
  "0 < length (textAnnotations withText) \<and>
   ta_fontSize (textAnnotations withText ! 0) = Some 11 \<and>
   ta_fontSize (textAnnotations
      (resizes [DecrementFont 0, DecrementFont 0, DecrementFont 0, DecrementFont 0,
                DecrementFont 0] withText) ! 0) = Some 8 \<and>
   (\<exists>v. ta_fontSize (textAnnotations
      (resizes [DecrementFont 0, DecrementFont 0, DecrementFont 0, DecrementFont 0,
                DecrementFont 0] withText) ! 0) = Some v \<and> 8 \<le> v)"
proof -
  have h1: "0 < length (textAnnotations withText)"
    by (simp add: withText_eq)
  have h2: "ta_fontSize (textAnnotations withText ! 0) = Some 11"
    by (simp add: withText_eq)
  have "ta_fontSize (textAnnotations
      (resizes [DecrementFont 0, DecrementFont 0, DecrementFont 0, DecrementFont 0,
                DecrementFont 0] withText) ! 0) = Some 8"
    by (simp add: withText_eq decrementFontSize_def map_with_index_def fontSizeOrDefault_def)
  then show ?thesis
    using h1 h2 font_size_floor [OF h1 h2,
        of "[DecrementFont 0, DecrementFont 0, DecrementFont 0, DecrementFont 0, DecrementFont 0]"]
    by blast
qed

text \<open>
  C7. A signature annotation that starts at 200 by 100 is, after any sequence of presses
  of the resize buttons (shrinking or growing, on any annotations), at least 50 wide and
  25 high; one more press of its shrink button multiplies both by 0.9 and stops at these
  floors.
\<close>

theorem signature_size_floor:
  assumes "j < length (signatureAnnotations s)"
    and "sa_width (signatureAnnotations s ! j) = 200"
    and "sa_height (signatureAnnotations s ! j) = 100"
  shows "50 \<le> sa_width (signatureAnnotations (resizes ops s) ! j) \<and>
         25 \<le> sa_height (signatureAnnotations (resizes ops s) ! j) \<and>
         sa_width (signatureAnnotations (shrinkSignature j (resizes ops s)) ! j) =
           max 50 (sa_width (signatureAnnotations (resizes ops s) ! j) * 0.9) \<and>
         sa_height (signatureAnnotations (shrinkSignature j (resizes ops s)) ! j) =
           max 25 (sa_height (signatureAnnotations (resizes ops s) ! j) * 0.9)"
proof -
  have fl: "j < length (signatureAnnotations (resizes ops s)) \<and>
      50 \<le> sa_width (signatureAnnotations (resizes ops s) ! j) \<and>
      25 \<le> sa_height (signatureAnnotations (resizes ops s) ! j)"
    using assms by (intro resizes_signature_floor) simp_all
  then show ?thesis
    by (simp add: shrinkSignature_def nth_map_with_index)
qed

theorem signature_size_floor_witness:
  "0 < length (signatureAnnotations withSignature) \<and>
   sa_width (signatureAnnotations withSignature ! 0) = 200 \<and>
   sa_height (signatureAnnotations withSignature ! 0) = 100 \<and>
   50 \<le> sa_width (signatureAnnotations (resizes (replicate 14 (Shrink 0)) withSignature) ! 0) \<and>
   25 \<le> sa_height (signatureAnnotations (resizes (replicate 14 (Shrink 0)) withSignature) ! 0) \<and>
   sa_width (signatureAnnotations (resizes (replicate 14 (Shrink 0)) withSignature) ! 0) = 50"
proof -
  have h1: "0 < length (signatureAnnotations withSignature)"
    by (simp add: withSignature_eq)
  have h2: "sa_width (signatureAnnotations withSignature ! 0) = 200"
    by (simp add: withSignature_eq)
  have h3: "sa_height (signatureAnnotations withSignature ! 0) = 100"
    by (simp add: withSignature_eq)
  have "sa_width (signatureAnnotations (resizes (replicate 14 (Shrink 0)) withSignature) ! 0) = 50"
    by (simp add: withSignature_eq withText_eq loadedState_def initialState_def
        shrinkSignature_def map_with_index_def numeral_eq_Suc)
  then show ?thesis
    using h1 h2 h3 signature_size_floor [OF h1 h2 h3, of "replicate 14 (Shrink 0)"]
    by blast
qed

subsection \<open>Dragging\<close>

text \<open>A pointer-down while nothing is dragged opens a session with fresh listeners.\<close>

lemma annotationMouseDown_opens:
  assumes "draggedAnnotation s = None"
  shows "dragSession kind i (annotationMouseDown i kind s)"
  using assms
  by (simp add: dragSession_def annotationMouseDown_def dragEffect_def
      handleAnnotationMouseDown_def)

lemma documentMouseMove_dragging:
  assumes "dragSession kind i s"
  shows "documentMouseMove e (Some r) s =
     (if kind = KindText then
        s\<lparr>textAnnotations :=
            (textAnnotations s)
              [i := (textAnnotations s ! i)
                 \<lparr>ta_x := (clientX e - rect_left r) / scale s,
                  ta_y := (clientY e - rect_top r) / scale s\<rparr>]\<rparr>
      else
        s\<lparr>signatureAnnotations :=
            (signatureAnnotations s)
              [i := (signatureAnnotations s ! i)
                 \<lparr>sa_x := (clientX e - rect_left r) / scale s,
                  sa_y := (clientY e - rect_top r) / scale s\<rparr>]\<rparr>)"
  using assms
  by (simp add: dragSession_def documentMouseMove_def handleMouseMove_def map_with_index_at)

lemma documentMouseMove_no_rect: "documentMouseMove e None s = s"
  by (simp add: documentMouseMove_def handleMouseMove_def split: option.splits)

lemma documentMouseMoves_snoc:
  "documentMouseMoves (moves @ [(e, rect)]) s = documentMouseMove e rect (documentMouseMoves moves s)"
  by (induction moves arbitrary: s) auto

lemma text_moved_again:
  "xs[i := (xs[i := a] ! i)\<lparr>ta_x := x, ta_y := y\<rparr>] = xs[i := a\<lparr>ta_x := x, ta_y := y\<rparr>]"
  by (cases "i < length xs") (simp_all add: list_update_beyond)

lemma signature_moved_again:
  "xs[i := (xs[i := a] ! i)\<lparr>sa_x := x, sa_y := y\<rparr>] = xs[i := a\<lparr>sa_x := x, sa_y := y\<rparr>]"
  by (cases "i < length xs") (simp_all add: list_update_beyond)

text \<open>
  During a session the state differs from the state at its start at most in the position
  of the dragged annotation.
\<close>

lemma documentMouseMoves_text:
  assumes "dragSession KindText i s"
  shows "documentMouseMoves moves s = s \<or>
     (\<exists>x y. documentMouseMoves moves s =
        s\<lparr>textAnnotations :=
            (textAnnotations s)[i := (textAnnotations s ! i)\<lparr>ta_x := x, ta_y := y\<rparr>]\<rparr>)"
proof (induction moves rule: rev_induct)
  case Nil
  then show ?case by simp
next
  case (snoc m moves)
  obtain e rect where m: "m = (e, rect)" by (cases m)
  show ?case
  proof (cases rect)
    case None
    then show ?thesis
      using snoc m by (simp add: documentMouseMoves_snoc documentMouseMove_no_rect)
  next
    case (Some r)
    from snoc show ?thesis
    proof
      assume "documentMouseMoves moves s = s"
      then show ?thesis
        using m Some documentMouseMove_dragging [OF assms, of e r]
        by (auto simp: documentMouseMoves_snoc)
    next
      assume "\<exists>x y. documentMouseMoves moves s =
        s\<lparr>textAnnotations :=
            (textAnnotations s)[i := (textAnnotations s ! i)\<lparr>ta_x := x, ta_y := y\<rparr>]\<rparr>"
      then obtain x y where st: "documentMouseMoves moves s =
        s\<lparr>textAnnotations :=
            (textAnnotations s)[i := (textAnnotations s ! i)\<lparr>ta_x := x, ta_y := y\<rparr>]\<rparr>"
        by blast
      have "dragSession KindText i (documentMouseMoves moves s)"
        using assms by (simp add: st dragSession_def)
      from documentMouseMove_dragging [OF this, of e r] show ?thesis
        using m Some by (auto simp: documentMouseMoves_snoc st text_moved_again)
    qed
  qed
qed

lemma documentMouseMoves_signature:
  assumes "dragSession KindSignature i s"
  shows "documentMouseMoves moves s = s \<or>
     (\<exists>x y. documentMouseMoves moves s =
        s\<lparr>signatureAnnotations :=
            (signatureAnnotations s)[i := (signatureAnnotations s ! i)\<lparr>sa_x := x, sa_y := y\<rparr>]\<rparr>)"
proof (induction moves rule: rev_induct)
  case Nil
  then show ?case by simp
next
  case (snoc m moves)
  obtain e rect where m: "m = (e, rect)" by (cases m)
  show ?case
  proof (cases rect)
    case None
    then show ?thesis
      using snoc m by (simp add: documentMouseMoves_snoc documentMouseMove_no_rect)
  next
    case (Some r)
    from snoc show ?thesis
    proof
      assume "documentMouseMoves moves s = s"
      then show ?thesis
        using m Some documentMouseMove_dragging [OF assms, of e r]
        by (auto simp: documentMouseMoves_snoc)
    next
      assume "\<exists>x y. documentMouseMoves moves s =
        s\<lparr>signatureAnnotations :=
            (signatureAnnotations s)[i := (signatureAnnotations s ! i)\<lparr>sa_x := x, sa_y := y\<rparr>]\<rparr>"
      then obtain x y where st: "documentMouseMoves moves s =
        s\<lparr>signatureAnnotations :=
            (signatureAnnotations s)[i := (signatureAnnotations s ! i)\<lparr>sa_x := x, sa_y := y\<rparr>]\<rparr>"
        by blast
      have "dragSession KindSignature i (documentMouseMoves moves s)"
        using assms by (simp add: st dragSession_def)
      from documentMouseMove_dragging [OF this, of e r] show ?thesis
        using m Some by (auto simp: documentMouseMoves_snoc st signature_moved_again)
    qed
  qed
qed

lemma documentMouseMoves_session:
  assumes "dragSession kind i s"
  shows "dragSession kind i (documentMouseMoves moves s)"
proof (cases kind)
  case KindText
  then show ?thesis
    using assms documentMouseMoves_text [of i s moves] by (auto simp: dragSession_def)
next
  case KindSignature
  then show ?thesis
    using assms documentMouseMoves_signature [of i s moves] by (auto simp: dragSession_def)
qed

lemma documentMouseUp_session:
  assumes "dragSession kind i s"
  shows "documentMouseUp s = s\<lparr>draggedAnnotation := None, listeners := None\<rparr>"
  using assms by (simp add: dragSession_def documentMouseUp_def handleMouseUp_def dragEffect_def)

lemma session_end_text:
  assumes "dragSession KindText i s"
  shows "documentMouseUp (documentMouseMoves (moves @ [(e, Some r)]) s) =
     s\<lparr>textAnnotations :=
          (textAnnotations s)
            [i := (textAnnotations s ! i)
               \<lparr>ta_x := (clientX e - rect_left r) / scale s,
                ta_y := (clientY e - rect_top r) / scale s\<rparr>],
       draggedAnnotation := None, listeners := None\<rparr>"
proof -
  have ses: "dragSession KindText i (documentMouseMoves moves s)"
    using assms by (rule documentMouseMoves_session)
  have fin: "dragSession KindText i (documentMouseMoves (moves @ [(e, Some r)]) s)"
    using assms by (rule documentMouseMoves_session)
  show ?thesis
    using documentMouseMoves_text [OF assms, of moves]
      documentMouseMove_dragging [OF ses, of e r] documentMouseUp_session [OF fin]
    by (auto simp: documentMouseMoves_snoc text_moved_again)
qed

lemma session_end_signature:
  assumes "dragSession KindSignature i s"
  shows "documentMouseUp (documentMouseMoves (moves @ [(e, Some r)]) s) =
     s\<lparr>signatureAnnotations :=
          (signatureAnnotations s)
            [i := (signatureAnnotations s ! i)
               \<lparr>sa_x := (clientX e - rect_left r) / scale s,
                sa_y := (clientY e - rect_top r) / scale s\<rparr>],
       draggedAnnotation := None, listeners := None\<rparr>"
proof -
  have ses: "dragSession KindSignature i (documentMouseMoves moves s)"
    using assms by (rule documentMouseMoves_session)
  have fin: "dragSession KindSignature i (documentMouseMoves (moves @ [(e, Some r)]) s)"
    using assms by (rule documentMouseMoves_session)
  show ?thesis
    using documentMouseMoves_signature [OF assms, of moves]
      documentMouseMove_dragging [OF ses, of e r] documentMouseUp_session [OF fin]
    by (auto simp: documentMouseMoves_snoc signature_moved_again)
qed

text \<open>
  C9 fails on the code. Signatures are stored on both pages and the second page is shown,
  so the signature rendered there with index 0 is the second of the store. A drag opened
  on it, with the pointer moved to \<open>(300, 400)\<close> from the corner of the document surface
  at zoom 1.0 and released, leaves that signature where it was and stores \<open>(300, 400)\<close>
  in the first signature of the store, which is on the first page.
\<close>

theorem drag_on_second_page_moves_other:
  "pageNumber signedOnBothPages = 2 \<and>
   scale signedOnBothPages = 1 \<and>
   draggedAnnotation signedOnBothPages = None \<and>
   signatureAnnotations signedOnBothPages =
     [\<lparr>sa_x = 595 / 2, sa_y = 421, sa_dataUrl = samplePng, sa_width = 200, sa_height = 100,
       sa_pageNumber = 1, sa_scale = None\<rparr>,
      \<lparr>sa_x = 306, sa_y = 396, sa_dataUrl = samplePng, sa_width = 200, sa_height = 100,
       sa_pageNumber = 2, sa_scale = None\<rparr>] \<and>
   renderedSignatureAnnotations signedOnBothPages =
     [\<lparr>sa_x = 306, sa_y = 396, sa_dataUrl = samplePng, sa_width = 200, sa_height = 100,
       sa_pageNumber = 2, sa_scale = None\<rparr>] \<and>
   signatureAnnotations
     (documentMouseUp
        (documentMouseMove \<lparr>clientX = 293, clientY = 403\<rparr> (Some documentSurface)
           (signatureAnnotationMouseDown 0 signedOnBothPages))) =
     [\<lparr>sa_x = 300, sa_y = 400, sa_dataUrl = samplePng, sa_width = 200, sa_height = 100,
       sa_pageNumber = 1, sa_scale = None\<rparr>,
      \<lparr>sa_x = 306, sa_y = 396, sa_dataUrl = samplePng, sa_width = 200, sa_height = 100,
       sa_pageNumber = 2, sa_scale = None\<rparr>]"
  by (simp add: signedOnBothPages_eq twoPageLoaded_eq initialState_def documentSurface_def
      signatureAnnotationMouseDown_def renderedSignatureAnnotations_def
      annotationMouseDown_def dragEffect_def handleAnnotationMouseDown_def
      documentMouseMove_def handleMouseMove_def documentMouseUp_def handleMouseUp_def
      map_with_index_def)

text \<open>
  A second way for a pointer-move to miss the dragged annotation: the listeners are
  replaced only when \<open>draggedAnnotation\<close> or \<open>scale\<close> changes. After a pointer-down on
  the text with index 0 and, with no pointer-up between, a pointer-down on the signature
  with index 0, the state names the signature as dragged, and a pointer-move rewrites the
  text.
\<close>

lemma stale_listener_moves_other:
  "draggedAnnotation (signatureAnnotationMouseDown 0 (textAnnotationMouseDown 0 withSignature)) =
     Some 0 \<and>
   draggedType (signatureAnnotationMouseDown 0 (textAnnotationMouseDown 0 withSignature)) =
     KindSignature \<and>
   signatureAnnotations
     (documentMouseMove \<lparr>clientX = 100, clientY = 90\<rparr> (Some documentSurface)
        (signatureAnnotationMouseDown 0 (textAnnotationMouseDown 0 withSignature))) =
     signatureAnnotations withSignature \<and>
   textAnnotations
     (documentMouseMove \<lparr>clientX = 100, clientY = 90\<rparr> (Some documentSurface)
        (signatureAnnotationMouseDown 0 (textAnnotationMouseDown 0 withSignature))) =
     [\<lparr>ta_x = 107, ta_y = 87, ta_text = ascii ''Hi'', ta_pageNumber = 1,
       ta_fontSize = Some 11, ta_isResizing = None\<rparr>]"
  by (simp add: withSignature_eq withText_eq loadedState_def initialState_def
      documentSurface_def textAnnotationMouseDown_def signatureAnnotationMouseDown_def
      renderedTextAnnotations_def renderedSignatureAnnotations_def
      annotationMouseDown_def dragEffect_def handleAnnotationMouseDown_def
      documentMouseMove_def handleMouseMove_def map_with_index_def)

subsection \<open>Submitting the text prompt\<close>

lemma trim_empty_iff: "trim s = [] \<longleftrightarrow> (\<forall>c\<in>set s. isWhiteSpace c)"
proof
  assume "trim s = []"
  then have all: "\<forall>c\<in>set (dropWhile isWhiteSpace s). isWhiteSpace c"
    by (simp add: trim_def trimEnd_def trimStart_def)
  have "dropWhile isWhiteSpace s = []"
  proof (rule ccontr)
    assume ne: "dropWhile isWhiteSpace s \<noteq> []"
    then have "\<not> isWhiteSpace (hd (dropWhile isWhiteSpace s))"
      by (rule hd_dropWhile)
    moreover have "hd (dropWhile isWhiteSpace s) \<in> set (dropWhile isWhiteSpace s)"
      using ne by simp
    ultimately show False
      using all by blast
  qed
  then show "\<forall>c\<in>set s. isWhiteSpace c"
    by simp
next
  assume "\<forall>c\<in>set s. isWhiteSpace c"
  then have d: "dropWhile isWhiteSpace s = []"
    by simp
  have "trim s = rev (dropWhile isWhiteSpace (rev []))"
    by (simp only: trim_def trimEnd_def trimStart_def d)
  then show "trim s = []"
    by simp
qed

text \<open>
  C10. Submitting the prompt with a string that is empty or holds only white space
  changes nothing in the state, so the text annotations, the active tool and the pending
  position are as before. When the string holds a character that is not white space (and
  the prompt has its pending position \<open>p\<close>), one annotation is appended at \<open>p\<close> whose
  text is the submitted string itself, leading and trailing white space included.
\<close>

theorem text_submit_blank_or_verbatim:
  "((\<forall>c\<in>set (newTextAnnotation s). isWhiteSpace c) \<longrightarrow> handleTextSubmit s = s) \<and>
   ((\<exists>c\<in>set (newTextAnnotation s). \<not> isWhiteSpace c) \<and> editingPosition s = Some p \<longrightarrow>
      textAnnotations (handleTextSubmit s) =
        textAnnotations s @
        [\<lparr>ta_x = pos_x p, ta_y = pos_y p, ta_text = newTextAnnotation s,
          ta_pageNumber = pageNumber s, ta_fontSize = Some 11, ta_isResizing = None\<rparr>])"
proof (intro conjI impI)
  assume "\<forall>c\<in>set (newTextAnnotation s). isWhiteSpace c"
  then have "trim (newTextAnnotation s) = []"
    by (simp add: trim_empty_iff)
  then show "handleTextSubmit s = s"
    by (simp add: handleTextSubmit_def truthy_def split: option.splits)
next
  assume a: "(\<exists>c\<in>set (newTextAnnotation s). \<not> isWhiteSpace c) \<and> editingPosition s = Some p"
  then have "trim (newTextAnnotation s) \<noteq> []"
    by (simp add: trim_empty_iff)
  then show "textAnnotations (handleTextSubmit s) =
        textAnnotations s @
        [\<lparr>ta_x = pos_x p, ta_y = pos_y p, ta_text = newTextAnnotation s,
          ta_pageNumber = pageNumber s, ta_fontSize = Some 11, ta_isResizing = None\<rparr>]"
    using a by (simp add: handleTextSubmit_def truthy_def)
qed

lemma promptOpen_eq:
  "promptOpen =
     loadedState\<lparr>activeTool := ToolText, editingText := True,
       editingPosition := Some \<lparr>pos_x = 50, pos_y = 80\<rparr>\<rparr>"
  by (simp add: promptOpen_def loadedState_def initialState_def pageSurface_def
      setActiveTool_def handlePageClick_def Let_def)

theorem text_submit_blank_or_verbatim_witness:
  "handleTextSubmit (setNewTextAnnotation [0x20, 0x0A, 0xA0, 0x09] promptOpen) =
     setNewTextAnnotation [0x20, 0x0A, 0xA0, 0x09] promptOpen \<and>
   textAnnotations (handleTextSubmit (setNewTextAnnotation (ascii '' Hi '') promptOpen)) =
     [\<lparr>ta_x = 50, ta_y = 80, ta_text = ascii '' Hi '', ta_pageNumber = 1,
       ta_fontSize = Some 11, ta_isResizing = None\<rparr>]"
proof -
  have blank: "\<forall>c\<in>set (newTextAnnotation (setNewTextAnnotation [0x20, 0x0A, 0xA0, 0x09] promptOpen)).
      isWhiteSpace c"
    by (simp add: setNewTextAnnotation_def isWhiteSpace_def)
  have padded: "(\<exists>c\<in>set (newTextAnnotation (setNewTextAnnotation (ascii '' Hi '') promptOpen)).
      \<not> isWhiteSpace c) \<and>
      editingPosition (setNewTextAnnotation (ascii '' Hi '') promptOpen) =
        Some \<lparr>pos_x = 50, pos_y = 80\<rparr>"
    by (simp add: setNewTextAnnotation_def isWhiteSpace_def ascii_def promptOpen_eq)
  show ?thesis
    using blank padded
      text_submit_blank_or_verbatim
        [of "setNewTextAnnotation [0x20, 0x0A, 0xA0, 0x09] promptOpen"]
      text_submit_blank_or_verbatim
        [of "setNewTextAnnotation (ascii '' Hi '') promptOpen" "\<lparr>pos_x = 50, pos_y = 80\<rparr>"]
    by (simp add: setNewTextAnnotation_def promptOpen_eq loadedState_def initialState_def)
qed

subsection \<open>Upload\<close>

text \<open>
  C8. A file whose MIME type is not \<open>application/pdf\<close> is rejected: the only effect of
  \<open>validateAndUploadFile\<close> is the notification \<open>Invalid file type\<close>. The selected file
  is as before, so with no file selected the application still renders the uploader and
  the editor (with its document source and page renderer) is not mounted. The file input
  does nothing besides; a drop has cleared the drag-hover flag before the check.
\<close>

theorem upload_rejects_non_pdf:
  assumes "file_type file \<noteq> ascii ''application/pdf''"
  shows "validateAndUploadFile file s =
           s\<lparr>app_toasts := app_toasts s @
              [\<lparr>toast_title = ascii ''Invalid file type'',
                toast_description = ascii ''Please upload a PDF file'',
                toast_variant = Some (ascii ''destructive'')\<rparr>]\<rparr> \<and>
         selectedFile (validateAndUploadFile file s) = selectedFile s \<and>
         (selectedFile s = None \<longrightarrow> render (validateAndUploadFile file s) = UploaderView) \<and>
         handleFileInputChange (file # files) s = validateAndUploadFile file s \<and>
         handleDrop (file # files) s = validateAndUploadFile file (s\<lparr>isDragging := False\<rparr>)"
  using assms
  by (simp add: validateAndUploadFile_def render_def handleFileInputChange_def handleDrop_def)

theorem upload_rejects_non_pdf_witness:
  "file_type notesFile \<noteq> ascii ''application/pdf'' \<and>
   selectedFile initialApp = None \<and>
   selectedFile (validateAndUploadFile notesFile initialApp) = None \<and>
   render (validateAndUploadFile notesFile initialApp) = UploaderView \<and>
   validateAndUploadFile notesFile initialApp =
     initialApp\<lparr>app_toasts :=
       [\<lparr>toast_title = ascii ''Invalid file type'',
         toast_description = ascii ''Please upload a PDF file'',
         toast_variant = Some (ascii ''destructive'')\<rparr>]\<rparr>"
proof -
  have h: "file_type notesFile \<noteq> ascii ''application/pdf''"
    by (simp add: notesFile_def ascii_def)
  have n: "selectedFile initialApp = None"
    by (simp add: initialApp_def)
  show ?thesis
    using h n upload_rejects_non_pdf [OF h, of initialApp "[]"]
    by (simp add: initialApp_def render_def)
qed

subsection \<open>Export\<close>

lemma drawTextAnnotations_exportable:
  assumes "list_all (\<lambda>a. getPage pages (ta_pageNumber a) \<noteq> None \<and> lib_canEncode lib (ta_text a)) as"
  shows "drawTextAnnotations lib pages as =
     Some (map (\<lambda>a. drawTextInstr (the (getPage pages (ta_pageNumber a))) a) as)"
  using assms by (induction as) auto

lemma drawTextAnnotations_SomeD:
  assumes "drawTextAnnotations lib pages as = Some ds"
  shows "list_all (\<lambda>a. getPage pages (ta_pageNumber a) \<noteq> None \<and> lib_canEncode lib (ta_text a)) as"
  using assms by (induction as arbitrary: ds) (auto split: option.splits if_splits)

lemma drawSignatureAnnotations_exportable:
  assumes "list_all (\<lambda>a. getPage pages (sa_pageNumber a) \<noteq> None \<and> lib_embedPng lib (sa_dataUrl a)) as"
  shows "drawSignatureAnnotations lib pages as =
     Some (map (\<lambda>a. drawImageInstr (the (getPage pages (sa_pageNumber a))) a) as)"
  using assms by (induction as) auto

lemma drawSignatureAnnotations_SomeD:
  assumes "drawSignatureAnnotations lib pages as = Some ds"
  shows "list_all (\<lambda>a. getPage pages (sa_pageNumber a) \<noteq> None \<and> lib_embedPng lib (sa_dataUrl a)) as"
  using assms by (induction as arbitrary: ds) (auto split: option.splits if_splits)

text \<open>The export goes through exactly on the exportable states of a loadable document.\<close>

lemma exportDocument_exportable:
  assumes "lib_load lib bytes = Some pages" and "exportable lib pages s"
  shows "exportDocument lib bytes s =
     Some (map (\<lambda>a. drawTextInstr (the (getPage pages (ta_pageNumber a))) a) (textAnnotations s) @
           map (\<lambda>a. drawImageInstr (the (getPage pages (sa_pageNumber a))) a)
             (signatureAnnotations s))"
  using assms
  by (simp add: exportDocument_def exportable_def drawTextAnnotations_exportable
      drawSignatureAnnotations_exportable)

lemma exportDocument_SomeD:
  assumes "exportDocument lib bytes s = Some draws"
  shows "\<exists>pages. lib_load lib bytes = Some pages \<and> exportable lib pages s"
  using assms
  by (auto simp: exportDocument_def exportable_def split: option.splits
      dest: drawTextAnnotations_SomeD drawSignatureAnnotations_SomeD)

lemma handleDownload_exportable:
  assumes "pdfBytes s = Some bytes" and "lib_load lib bytes = Some pages"
    and "exportable lib pages s"
  shows "fst (handleDownload lib file s) =
     Some (Download (ascii ''edited_'' @ file_name file)
       (map (\<lambda>a. drawTextInstr (the (getPage pages (ta_pageNumber a))) a) (textAnnotations s) @
        map (\<lambda>a. drawImageInstr (the (getPage pages (sa_pageNumber a))) a)
          (signatureAnnotations s)))"
proof -
  have "exportDocument lib bytes s =
     Some (map (\<lambda>a. drawTextInstr (the (getPage pages (ta_pageNumber a))) a) (textAnnotations s) @
        map (\<lambda>a. drawImageInstr (the (getPage pages (sa_pageNumber a))) a)
          (signatureAnnotations s))"
    using assms(2,3) by (rule exportDocument_exportable)
  then show ?thesis
    using assms(1) by (simp add: handleDownload_def)
qed

lemma second_page_export:
  "pdfBytes secondPageSigned = Some (file_content sampleFile) \<and>
   lib_load twoPageLib (file_content sampleFile) = Some [a4Page, letterPage] \<and>
   exportable twoPageLib [a4Page, letterPage] secondPageSigned"
  by (simp add: secondPageSigned_eq secondPageText_eq twoPageLoaded_eq initialState_def
      twoPageLib_def exportable_def getPage_def)

text \<open>
  C4. On a state whose export goes through, the instruction issued for the text
  annotation with index \<open>i\<close>, stored at \<open>(x, y)\<close> on page \<open>n\<close> of the document, is a
  draw-text instruction for its text on that page at \<open>(x, H - y)\<close>, where \<open>H\<close> is the
  natural height of page \<open>n\<close>, the element \<open>n - 1\<close> of the document's pages.
\<close>

theorem text_export_position:
  assumes "pdfBytes s = Some bytes" and "lib_load lib bytes = Some pages"
    and "exportable lib pages s"
    and "i < length (textAnnotations s)"
    and "1 \<le> ta_pageNumber (textAnnotations s ! i)"
    and "ta_pageNumber (textAnnotations s ! i) \<le> int (length pages)"
  shows "\<exists>draws sz colour face alpha.
           fst (handleDownload lib file s) =
             Some (Download (ascii ''edited_'' @ file_name file) draws) \<and>
           draws ! i =
             DrawText (nat (ta_pageNumber (textAnnotations s ! i) - 1))
               (ta_text (textAnnotations s ! i))
               (ta_x (textAnnotations s ! i))
               (pg_height (pages ! nat (ta_pageNumber (textAnnotations s ! i) - 1)) -
                  ta_y (textAnnotations s ! i))
               sz colour face alpha"
proof -
  let ?texts = "map (\<lambda>a. drawTextInstr (the (getPage pages (ta_pageNumber a))) a) (textAnnotations s)"
  let ?images = "map (\<lambda>a. drawImageInstr (the (getPage pages (sa_pageNumber a))) a)
      (signatureAnnotations s)"
  have page: "getPage pages (ta_pageNumber (textAnnotations s ! i)) =
      Some (pages ! nat (ta_pageNumber (textAnnotations s ! i) - 1))"
    using assms(5,6) by (simp add: getPage_def)
  have "fst (handleDownload lib file s) =
      Some (Download (ascii ''edited_'' @ file_name file) (?texts @ ?images))"
    using assms(1-3) by (rule handleDownload_exportable)
  moreover have "(?texts @ ?images) ! i =
      drawTextInstr (pages ! nat (ta_pageNumber (textAnnotations s ! i) - 1))
        (textAnnotations s ! i)"
    using assms(4) page by (simp add: nth_append)
  ultimately show ?thesis
    unfolding drawTextInstr_def by blast
qed

theorem text_export_position_witness:
  "pdfBytes secondPageSigned = Some (file_content sampleFile) \<and>
   lib_load twoPageLib (file_content sampleFile) = Some [a4Page, letterPage] \<and>
   exportable twoPageLib [a4Page, letterPage] secondPageSigned \<and>
   0 < length (textAnnotations secondPageSigned) \<and>
   ta_pageNumber (textAnnotations secondPageSigned ! 0) = 2 \<and>
   ta_x (textAnnotations secondPageSigned ! 0) = 50 \<and>
   ta_y (textAnnotations secondPageSigned ! 0) = 80 \<and>
   pg_height ([a4Page, letterPage] ! 0) = 842 \<and>
   pg_height ([a4Page, letterPage] ! 1) = 792 \<and>
   (\<exists>draws sz colour face alpha.
      fst (handleDownload twoPageLib sampleFile secondPageSigned) =
        Some (Download (ascii ''edited_'' @ file_name sampleFile) draws) \<and>
      draws ! 0 = DrawText 1 (ascii ''Hi'') 50 712 sz colour face alpha)"
proof -
  have h1: "pdfBytes secondPageSigned = Some (file_content sampleFile)"
    and h2: "lib_load twoPageLib (file_content sampleFile) = Some [a4Page, letterPage]"
    and h3: "exportable twoPageLib [a4Page, letterPage] secondPageSigned"
    using second_page_export by simp_all
  have h4: "0 < length (textAnnotations secondPageSigned)"
    by (simp add: secondPageSigned_eq secondPageText_eq)
  have h5: "1 \<le> ta_pageNumber (textAnnotations secondPageSigned ! 0)"
    by (simp add: secondPageSigned_eq secondPageText_eq)
  have h6: "ta_pageNumber (textAnnotations secondPageSigned ! 0) \<le> int (length [a4Page, letterPage])"
    by (simp add: secondPageSigned_eq secondPageText_eq)
  show ?thesis
    using h1 h2 h3 h4 text_export_position [OF h1 h2 h3 h4 h5 h6, of sampleFile]
    by (simp add: secondPageSigned_eq secondPageText_eq letterPage_def a4Page_def)
qed

text \<open>
  C5. On a state whose export goes through, the instructions for the signatures follow
  those for the texts; the one for the signature annotation with index \<open>j\<close>, stored at
  \<open>(x, y)\<close> with width \<open>w\<close> and height \<open>h\<close> on page \<open>n\<close> of the document, draws its image
  on that page at \<open>(x, H - y - h)\<close> with size \<open>w\<close> by \<open>h\<close>, where \<open>H\<close> is the natural height
  of page \<open>n\<close>, the element \<open>n - 1\<close> of the document's pages.
\<close>

theorem signature_export_position:
  assumes "pdfBytes s = Some bytes" and "lib_load lib bytes = Some pages"
    and "exportable lib pages s"
    and "j < length (signatureAnnotations s)"
    and "1 \<le> sa_pageNumber (signatureAnnotations s ! j)"
    and "sa_pageNumber (signatureAnnotations s ! j) \<le> int (length pages)"
  shows "\<exists>draws.
           fst (handleDownload lib file s) =
             Some (Download (ascii ''edited_'' @ file_name file) draws) \<and>
           draws ! (length (textAnnotations s) + j) =
             DrawImage (nat (sa_pageNumber (signatureAnnotations s ! j) - 1))
               (sa_dataUrl (signatureAnnotations s ! j))
               (sa_x (signatureAnnotations s ! j))
               (pg_height (pages ! nat (sa_pageNumber (signatureAnnotations s ! j) - 1)) -
                  sa_y (signatureAnnotations s ! j) -
                  sa_height (signatureAnnotations s ! j))
               (sa_width (signatureAnnotations s ! j))
               (sa_height (signatureAnnotations s ! j))"
proof -
  let ?texts = "map (\<lambda>a. drawTextInstr (the (getPage pages (ta_pageNumber a))) a) (textAnnotations s)"
  let ?images = "map (\<lambda>a. drawImageInstr (the (getPage pages (sa_pageNumber a))) a)
      (signatureAnnotations s)"
  have page: "getPage pages (sa_pageNumber (signatureAnnotations s ! j)) =
      Some (pages ! nat (sa_pageNumber (signatureAnnotations s ! j) - 1))"
    using assms(5,6) by (simp add: getPage_def)
  have "fst (handleDownload lib file s) =
      Some (Download (ascii ''edited_'' @ file_name file) (?texts @ ?images))"
    using assms(1-3) by (rule handleDownload_exportable)
  moreover have "(?texts @ ?images) ! (length (textAnnotations s) + j) =
      drawImageInstr (pages ! nat (sa_pageNumber (signatureAnnotations s ! j) - 1))
        (signatureAnnotations s ! j)"
    using assms(4) page by (simp add: nth_append)
  ultimately show ?thesis
    unfolding drawImageInstr_def by blast
qed

theorem signature_export_position_witness:
  "pdfBytes secondPageSigned = Some (file_content sampleFile) \<and>
   lib_load twoPageLib (file_content sampleFile) = Some [a4Page, letterPage] \<and>
   exportable twoPageLib [a4Page, letterPage] secondPageSigned \<and>
   0 < length (signatureAnnotations secondPageSigned) \<and>
   sa_pageNumber (signatureAnnotations secondPageSigned ! 0) = 2 \<and>
   sa_x (signatureAnnotations secondPageSigned ! 0) = 50 \<and>
   sa_y (signatureAnnotations secondPageSigned ! 0) = 80 \<and>
   sa_height (signatureAnnotations secondPageSigned ! 0) = 100 \<and>
   pg_height ([a4Page, letterPage] ! 0) = 842 \<and>
   pg_height ([a4Page, letterPage] ! 1) = 792 \<and>
   (\<exists>draws.
      fst (handleDownload twoPageLib sampleFile secondPageSigned) =
        Some (Download (ascii ''edited_'' @ file_name sampleFile) draws) \<and>
      draws ! 1 = DrawImage 1 samplePng 50 612 200 100)"
proof -
  have h1: "pdfBytes secondPageSigned = Some (file_content sampleFile)"
    and h2: "lib_load twoPageLib (file_content sampleFile) = Some [a4Page, letterPage]"
    and h3: "exportable twoPageLib [a4Page, letterPage] secondPageSigned"
    using second_page_export by simp_all
  have h4: "0 < length (signatureAnnotations secondPageSigned)"
    by (simp add: secondPageSigned_eq)
  have h5: "1 \<le> sa_pageNumber (signatureAnnotations secondPageSigned ! 0)"
    by (simp add: secondPageSigned_eq)
  have h6: "sa_pageNumber (signatureAnnotations secondPageSigned ! 0) \<le>
      int (length [a4Page, letterPage])"
    by (simp add: secondPageSigned_eq)
  show ?thesis
    using h1 h2 h3 h4 signature_export_position [OF h1 h2 h3 h4 h5 h6, of sampleFile]
    by (simp add: secondPageSigned_eq secondPageText_eq letterPage_def a4Page_def)
qed

text \<open>Whatever the annotation, the instruction for a text has size 11.\<close>

lemma drawTextInstr_size: "di_size (drawTextInstr page a) = 11"
  by (simp add: drawTextInstr_def)

text \<open>
  C1 fails on the code. The sample text annotation, enlarged once, has the stored font
  size 12 and is still exported with size 11: the exporter passes the constant 11 for
  every text annotation. The fill is black and the opacity 0.95.
\<close>

theorem export_ignores_font_size:
  "ta_fontSize (textAnnotations (incrementFontSize 0 withText) ! 0) = Some 12 \<and>
   fst (handleDownload sampleLib sampleFile (incrementFontSize 0 withText)) =
     Some (Download (ascii ''edited_form.pdf'')
       [DrawText 0 (ascii ''Hi'') 50 712 11 (0, 0, 0) (ascii ''Helvetica'') 0.95])"
proof -
  have st: "incrementFontSize 0 withText =
     loadedState\<lparr>textAnnotations :=
       [\<lparr>ta_x = 50, ta_y = 80, ta_text = ascii ''Hi'', ta_pageNumber = 1,
         ta_fontSize = Some 12, ta_isResizing = None\<rparr>]\<rparr>"
    by (simp add: withText_eq incrementFontSize_def map_with_index_def fontSizeOrDefault_def)
  have "exportDocument sampleLib (file_content sampleFile) (incrementFontSize 0 withText) =
      Some [DrawText 0 (ascii ''Hi'') 50 712 11 (0, 0, 0) (ascii ''Helvetica'') 0.95]"
    by (simp add: st exportDocument_def sampleLib_def loadedState_def initialState_def
        getPage_def drawTextInstr_def letterPage_def)
  moreover have "pdfBytes (incrementFontSize 0 withText) = Some (file_content sampleFile)"
    by (simp add: st loadedState_def)
  moreover have "ascii ''edited_'' @ file_name sampleFile = ascii ''edited_form.pdf''"
    by (simp add: sampleFile_def ascii_def)
  ultimately show ?thesis
    by (simp add: handleDownload_def st)
qed

subsection \<open>Placing a signature\<close>

text \<open>
  C2 as stated fails: with the signature tool active at zoom 1.0, a click at viewport
  position \<open>(110, 220)\<close> on the page surface, that is at document position
  \<open>(100, 200)\<close>, followed by a save stores the signature at \<open>(306, 396)\<close>, the centre of
  the surface.
\<close>

theorem signature_at_click_counterexample:
  "activeTool (setActiveTool ToolSignature withText) = ToolSignature \<and>
   scale (setActiveTool ToolSignature withText) = 1 \<and>
   ((110 - rect_left pageSurface) / 1, (220 - rect_top pageSurface) / 1) = (100, 200) \<and>
   signatureAnnotations
     (handleSignatureAdd samplePng (Some \<lparr>clientWidth = 612, clientHeight = 792\<rparr>)
        (handlePageClick \<lparr>clientX = 110, clientY = 220\<rparr> pageSurface
           (setActiveTool ToolSignature withText))) =
     [\<lparr>sa_x = 306, sa_y = 396, sa_dataUrl = samplePng, sa_width = 200, sa_height = 100,
       sa_pageNumber = 1, sa_scale = None\<rparr>] \<and>
   (306, 396) \<noteq> ((100::real), (200::real))"
  by (simp add: withText_eq loadedState_def initialState_def pageSurface_def
      setActiveTool_def handlePageClick_def handleSignatureAdd_def Let_def)

text \<open>
  C2 as amended. A click on the page surface with the signature tool active sets the
  pending position to the centre of the clicked surface in document space,
  \<open>(width / 2 / scale, height / 2 / scale)\<close>, whatever the pointer position, and the
  signature committed on save is stored there. Saving with no pending position stores the
  signature at the centre of the page element, \<open>(clientWidth / 2 / scale,
  clientHeight / 2 / scale)\<close>, or at \<open>(300, 400)\<close> when there is no page element.
\<close>

theorem signature_placed_at_surface_centre:
  assumes "activeTool s = ToolSignature"
  shows "signatureAnnotations (handleSignatureAdd url el (handlePageClick e rect s)) =
           signatureAnnotations s @
           [\<lparr>sa_x = rect_width rect / 2 / scale s, sa_y = rect_height rect / 2 / scale s,
             sa_dataUrl = url, sa_width = 200, sa_height = 100,
             sa_pageNumber = pageNumber s, sa_scale = None\<rparr>] \<and>
         (editingPosition s = None \<longrightarrow>
            signatureAnnotations (handleSignatureAdd url el s) =
              signatureAnnotations s @
              [\<lparr>sa_x = (case el of Some pe \<Rightarrow> clientWidth pe / 2 / scale s | None \<Rightarrow> 300),
                sa_y = (case el of Some pe \<Rightarrow> clientHeight pe / 2 / scale s | None \<Rightarrow> 400),
                sa_dataUrl = url, sa_width = 200, sa_height = 100,
                sa_pageNumber = pageNumber s, sa_scale = None\<rparr>])"
  using assms
  by (auto simp: handlePageClick_def handleSignatureAdd_def Let_def split: option.splits)

theorem signature_placed_at_surface_centre_witness:
  "activeTool (setActiveTool ToolSignature withText) = ToolSignature \<and>
   editingPosition (setActiveTool ToolSignature withText) = None \<and>
   signatureAnnotations
     (handleSignatureAdd samplePng (Some \<lparr>clientWidth = 612, clientHeight = 792\<rparr>)
        (handlePageClick \<lparr>clientX = 110, clientY = 220\<rparr> pageSurface
           (setActiveTool ToolSignature withText))) =
     [\<lparr>sa_x = 306, sa_y = 396, sa_dataUrl = samplePng, sa_width = 200, sa_height = 100,
       sa_pageNumber = 1, sa_scale = None\<rparr>] \<and>
   signatureAnnotations (handleSignatureAdd samplePng None (setActiveTool ToolSignature withText)) =
     [\<lparr>sa_x = 300, sa_y = 400, sa_dataUrl = samplePng, sa_width = 200, sa_height = 100,
       sa_pageNumber = 1, sa_scale = None\<rparr>]"
proof -
  have h: "activeTool (setActiveTool ToolSignature withText) = ToolSignature"
    by (simp add: setActiveTool_def)
  have n: "editingPosition (setActiveTool ToolSignature withText) = None"
    by (simp add: setActiveTool_def withText_eq loadedState_def initialState_def)
  show ?thesis
    using h n
      signature_placed_at_surface_centre [OF h, of samplePng
        "Some \<lparr>clientWidth = 612, clientHeight = 792\<rparr>" "\<lparr>clientX = 110, clientY = 220\<rparr>"
        pageSurface]
      signature_placed_at_surface_centre [OF h, of samplePng None]
    by (simp add: setActiveTool_def withText_eq loadedState_def initialState_def pageSurface_def)
qed

subsection \<open>Screen space and document space\<close>






end
